theory Spec2Isabelle
  imports Main
begin

section \<open>The audio encoder of rtplivelib (src/codec/audioencoder.cpp)\<close>

text \<open>
  The encoder keeps one libavcodec session (\<open>encoder\<close>, \<open>encoder_ctx\<close>), the format the
  session was opened for, and a reusable staging frame. The C++ methods mutate the
  private data object in place; here each method takes the object and returns the
  updated one. Pointers that the class owns exclusively are options: \<open>None\<close> is
  \<open>nullptr\<close>.
\<close>

subsection \<open>Data declared outside the source file\<close>

text \<open>
  Modelled from the spec: \<open>core::Format\<close> is declared in a header that is not part of the
  source under study. The spec describes it as a value type holding sample width,
  channel count, sample rate and a layout tag, compared by equality.
\<close>

record Format =
  bits :: int
  channels :: int
  sample_rate :: int
  layout :: int

text \<open>
  Modelled from the spec: \<open>core::FramePacket\<close>, a raw frame carrying its format
  descriptor and a sample payload. Only the format is read by the encoder.
\<close>

record FramePacket =
  packet_format :: Format
  payload :: "int list"

text \<open>
  The libavcodec structures, with the fields the source reads or writes. The
  zero-terminated arrays of \<open>AVCodec\<close> are lists holding the array as it lies in
  memory, terminator included; a null array pointer is \<open>None\<close>.
\<close>

record AVCodec =
  codec_id :: int
  long_name :: string
  supported_samplerates :: "int list option"

record AVCodecContext =
  frame_size :: int
  sample_fmt :: int
  bit_rate :: int
  ctx_sample_rate :: int
  channel_layout :: int
  ctx_channels :: int

record AVFrame =
  nb_samples :: int
  frame_format :: int
  frame_channel_layout :: int

definition AV_SAMPLE_FMT_S16 :: int where
  "AV_SAMPLE_FMT_S16 = 1"

definition AV_CH_LAYOUT_STEREO :: int where
  "AV_CH_LAYOUT_STEREO = 3"

datatype MessageNum =
    Codec_codec_open_failed
  | Codec_encoder_not_found
  | Codec_codec_context_alloc_failed
  | Codec_encoder_init_success

datatype LogLevel = WARNING_LEVEL | INFO_LEVEL

subsection \<open>The outside world\<close>

text \<open>
  Every call that leaves the class is recorded, oldest first: the libavcodec calls with
  what they returned, and the two logger entry points with their arguments (message
  number or error code, the name of the calling function, the level, and for
  \<open>Print_APP_Info\<close> the strings passed after them).
\<close>

datatype call =
    Find_encoder_by_name string "AVCodec option"
  | Alloc_context3 bool
  | Open2 int
  | Free_context
  | Frame_alloc bool
  | Print_APP_Info MessageNum string LogLevel "string list"
  | Print_FFMPEG_Info int string LogLevel

text \<open>
  What libavcodec answers is not decided by the encoder. Each library function is a
  parameter that may depend on everything that happened before (the calls so far) and
  on its arguments. \<open>avcodec_open2\<close> returns its status and the context as the
  library leaves it.
\<close>

record env =
  avcodec_find_encoder_by_name :: "call list \<Rightarrow> string \<Rightarrow> AVCodec option"
  avcodec_alloc_context3 :: "call list \<Rightarrow> AVCodec \<Rightarrow> AVCodecContext option"
  avcodec_open2 :: "call list \<Rightarrow> AVCodecContext \<Rightarrow> AVCodec \<Rightarrow> int \<times> AVCodecContext"
  av_frame_alloc :: "call list \<Rightarrow> AVFrame option"

subsection \<open>AudioEncoderPrivateData\<close>

text \<open>
  The fields of the class, and \<open>calls\<close>, which is not a field: it is the record of the
  outside world described above.
\<close>

record AudioEncoderPrivateData =
  encoder :: "AVCodec option"
  encoder_ctx :: "AVCodecContext option"
  format :: Format
  encode_frame :: "AVFrame option"
  reassignment :: bool
  calls :: "call list"

datatype error = Null_dereference | Read_past_end

text \<open>Where \<open>encode\<close> returned: the three early returns, or the end of the body.\<close>

datatype encode_exit =
    Open_failed
  | No_context
  | Staging_failed
  | Reached_encoding

definition record_call :: "call \<Rightarrow> AudioEncoderPrivateData \<Rightarrow> AudioEncoderPrivateData" where
  "record_call c s = s\<lparr>calls := calls s @ [c]\<rparr>"

definition avcodec_free_context :: "AudioEncoderPrivateData \<Rightarrow> AudioEncoderPrivateData" where
  "avcodec_free_context s = record_call Free_context (s\<lparr>encoder_ctx := None\<rparr>)"

text \<open>
  \<open>alloc_encode_frame\<close>: allocate the staging frame if there is none; when there is a
  frame and the flag is set, copy three fields from the context, clear the flag and
  return true; return false otherwise. The copy reads through \<open>encoder_ctx\<close> without a
  check, so a null context there is an error of the model.
\<close>

definition alloc_encode_frame ::
  "env \<Rightarrow> AudioEncoderPrivateData \<Rightarrow> error + (bool \<times> AudioEncoderPrivateData)" where
  "alloc_encode_frame e s =
     (let s1 = (if encode_frame s = None
                then (let r = av_frame_alloc e (calls s)
                      in record_call (Frame_alloc (r \<noteq> None)) (s\<lparr>encode_frame := r\<rparr>))
                else s)
      in case encode_frame s1 of
           None \<Rightarrow> Inr (False, s1)
         | Some f \<Rightarrow>
             if reassignment s1 = True
             then (case encoder_ctx s1 of
                     None \<Rightarrow> Inl Null_dereference
                   | Some c \<Rightarrow>
                       Inr (True,
                            s1\<lparr>encode_frame :=
                                  Some (f\<lparr>nb_samples := frame_size c,
                                          frame_format := sample_fmt c,
                                          frame_channel_layout := channel_layout c\<rparr>),
                                reassignment := False\<rparr>))
             else Inr (False, s1))"

text \<open>\<open>_set_encoder_param\<close>: the format argument is unused; five fixed values are written.\<close>

definition set_encoder_param :: "Format \<Rightarrow> AVCodecContext \<Rightarrow> AVCodecContext" where
  "set_encoder_param fmt c =
     c\<lparr>sample_fmt := AV_SAMPLE_FMT_S16,
       bit_rate := 64000,
       ctx_sample_rate := 44100,
       channel_layout := AV_CH_LAYOUT_STEREO,
       ctx_channels := 2\<rparr>"

text \<open>\<open>_init_encoder\<close>: resolve the codec by name, then allocate and configure a context.\<close>

definition init_encoder ::
  "env \<Rightarrow> string \<Rightarrow> Format \<Rightarrow> AudioEncoderPrivateData \<Rightarrow> bool \<times> AudioEncoderPrivateData" where
  "init_encoder e name fmt s =
     (let found = avcodec_find_encoder_by_name e (calls s) name;
          s1 = record_call (Find_encoder_by_name name found) (s\<lparr>encoder := found\<rparr>)
      in case found of
           None \<Rightarrow>
             (False,
              record_call (Print_APP_Info Codec_encoder_not_found
                             ''codec::AEPD::_init_encoder'' WARNING_LEVEL [name]) s1)
         | Some cd \<Rightarrow>
             (let s2 = (if encoder_ctx s1 \<noteq> None then avcodec_free_context s1 else s1);
                  ctx = avcodec_alloc_context3 e (calls s2) cd;
                  s3 = record_call (Alloc_context3 (ctx \<noteq> None)) (s2\<lparr>encoder_ctx := ctx\<rparr>)
              in case ctx of
                   None \<Rightarrow>
                     (False,
                      record_call (Print_APP_Info Codec_codec_context_alloc_failed
                                     ''codec::AEPD::_init_encoder'' WARNING_LEVEL []) s3)
                 | Some c \<Rightarrow>
                     (True,
                      record_call (Print_APP_Info Codec_encoder_init_success
                                     ''codec::AEPD::_init_encoder'' INFO_LEVEL [long_name cd])
                        (s3\<lparr>encoder_ctx := Some (set_encoder_param fmt c)\<rparr>))))"

text \<open>
  The part of \<open>encode\<close> after the context has been secured (lines 185 to 191 of the
  source): the staging step, after which the body ends without submitting anything to
  the codec.
\<close>

definition encode_staging ::
  "env \<Rightarrow> AudioEncoderPrivateData \<Rightarrow> error + (encode_exit \<times> AudioEncoderPrivateData)" where
  "encode_staging e s =
     (case alloc_encode_frame e s of
        Inl err \<Rightarrow> Inl err
      | Inr (False, s1) \<Rightarrow> Inr (Staging_failed, s1)
      | Inr (True, s1) \<Rightarrow> Inr (Reached_encoding, s1))"

text \<open>
  \<open>encode\<close>, \<open>open_ctx\<close> and \<open>close_ctx\<close> call each other: \<open>encode\<close> on a frame calls
  \<open>open_ctx\<close>, which calls \<open>close_ctx\<close>, which calls \<open>encode\<close> on the null pointer.
\<close>

function encode ::
      "env \<Rightarrow> FramePacket option \<Rightarrow> AudioEncoderPrivateData \<Rightarrow>
       error + (encode_exit \<times> AudioEncoderPrivateData)"
  and open_ctx ::
      "env \<Rightarrow> FramePacket \<Rightarrow> AudioEncoderPrivateData \<Rightarrow>
       error + (bool \<times> AudioEncoderPrivateData)"
  and close_ctx ::
      "env \<Rightarrow> AudioEncoderPrivateData \<Rightarrow> error + AudioEncoderPrivateData"
where
  "encode e (Some packet) s =
     (case open_ctx e packet s of
        Inl err \<Rightarrow> Inl err
      | Inr (False, s1) \<Rightarrow> Inr (Open_failed, s1)
      | Inr (True, s1) \<Rightarrow> encode_staging e s1)"
| "encode e None s =
     (if encoder_ctx s = None then Inr (No_context, s) else encode_staging e s)"
| "open_ctx e packet s =
     (if encoder_ctx s \<noteq> None \<and> format s = packet_format packet
      then Inr (True, s)
      else
        (case close_ctx e s of
           Inl err \<Rightarrow> Inl err
         | Inr s1 \<Rightarrow>
             (case init_encoder e ''libfdk_aac'' (packet_format packet) s1 of
                (False, s2) \<Rightarrow> Inr (False, s2)
              | (True, s2) \<Rightarrow>
                  (case (encoder_ctx s2, encoder s2) of
                     (Some c, Some cd) \<Rightarrow>
                       (let (ret, c') = avcodec_open2 e (calls s2) c cd;
                            s3 = record_call (Open2 ret) (s2\<lparr>encoder_ctx := Some c'\<rparr>)
                        in if ret < 0
                           then Inr (False,
                                     record_call (Print_FFMPEG_Info ret
                                                    ''codec::AEPD::open_ctx'' WARNING_LEVEL)
                                       (record_call (Print_APP_Info Codec_codec_open_failed
                                                       ''codec::AEPD::open_ctx'' WARNING_LEVEL [])
                                          s3))
                           else Inr (True,
                                     s3\<lparr>format := packet_format packet,
                                        reassignment := True\<rparr>))
                   | _ \<Rightarrow> Inl Null_dereference))))"
| "close_ctx e s =
     (if encoder_ctx s = None then Inr s
      else
        (case encode e None s of
           Inl err \<Rightarrow> Inl err
         | Inr (_, s1) \<Rightarrow> Inr (avcodec_free_context s1)))"
  by pat_completeness auto

termination
  by (relation "measure (\<lambda>x. case x of
                    Inl (_, Some _, _) \<Rightarrow> 3
                  | Inl (_, None, _) \<Rightarrow> 0
                  | Inr (Inl _) \<Rightarrow> 2
                  | Inr (Inr _) \<Rightarrow> Suc 0)") auto

text \<open>
  The constructor: no codec, no context, no staging frame, the flag clear. The format
  member is default-constructed by \<open>core::Format\<close>, whose constructor is not in the
  source, so the default is a parameter.
\<close>

definition new_private_data :: "Format \<Rightarrow> AudioEncoderPrivateData" where
  "new_private_data f0 =
     \<lparr>encoder = None, encoder_ctx = None, format = f0, encode_frame = None,
      reassignment = False, calls = []\<rparr>"

subsection \<open>select_sample_rate\<close>

text \<open>
  C \<open>int\<close> is 32 bits wide. The subtraction and \<open>abs\<close> are computed on mathematical
  integers and wrapped into the 32-bit two's complement range.
\<close>

definition wrap_int32 :: "int \<Rightarrow> int" where
  "wrap_int32 x = (x + 2147483648) mod 4294967296 - 2147483648"

definition c_sub :: "int \<Rightarrow> int \<Rightarrow> int" where
  "c_sub a b = wrap_int32 (a - b)"

definition c_abs :: "int \<Rightarrow> int" where
  "c_abs x = wrap_int32 (if x < 0 then - x else x)"

text \<open>
  The loop walks the array up to the first zero entry. An array without a terminator is
  read past its end.
\<close>

fun select_sample_rate_loop :: "int list \<Rightarrow> int \<Rightarrow> error + int" where
  "select_sample_rate_loop [] best_samplerate = Inl Read_past_end"
| "select_sample_rate_loop (p # ps) best_samplerate =
     (if p = 0 then Inr best_samplerate
      else select_sample_rate_loop ps
             (if best_samplerate = 0 \<or>
                 c_abs (c_sub 44100 p) < c_abs (c_sub 44100 best_samplerate)
              then p else best_samplerate))"

definition select_sample_rate :: "AVCodec \<Rightarrow> error + int" where
  "select_sample_rate codec =
     (case supported_samplerates codec of
        None \<Rightarrow> Inr 44100
      | Some arr \<Rightarrow> select_sample_rate_loop arr 0)"

subsection \<open>AudioEncoder\<close>

text \<open>
  Modelled from the spec: the upstream queue type is declared outside the source. It
  offers \<open>wait_for_resource_push\<close>, \<open>has_data\<close> and \<open>get_next\<close>; here it is the list of
  frames waiting, oldest first. The field \<open>input_queue\<close> is the member \<open>_queue\<close>, and
  \<open>None\<close> is the null queue. No other thread touches the queue in this model, so
  \<open>wait_for_resource_push\<close> changes nothing and the mutex is not represented.
\<close>

record AudioEncoder =
  input_queue :: "FramePacket list option"
  d_ptr :: AudioEncoderPrivateData

definition has_data :: "FramePacket list \<Rightarrow> bool" where
  "has_data q = (q \<noteq> [])"

definition get_encoder_id :: "AudioEncoder \<Rightarrow> int" where
  "get_encoder_id a =
     (case encoder (d_ptr a) of None \<Rightarrow> 0 | Some cd \<Rightarrow> codec_id cd)"

definition get_thread_pause_condition :: "AudioEncoder \<Rightarrow> bool" where
  "get_thread_pause_condition a = (input_queue a = None)"

text \<open>\<open>_get_next_packet\<close>: the null pointer when there is no queue or no data.\<close>

definition get_next_packet :: "AudioEncoder \<Rightarrow> FramePacket option \<times> AudioEncoder" where
  "get_next_packet a =
     (case input_queue a of
        None \<Rightarrow> (None, a)
      | Some q \<Rightarrow>
          if \<not> has_data q then (None, a)
          else (Some (hd q), a\<lparr>input_queue := Some (tl q)\<rparr>))"

text \<open>The \<open>while\<close> loop of \<open>on_thread_run\<close>.\<close>

function on_thread_run_loop :: "env \<Rightarrow> AudioEncoder \<Rightarrow> error + AudioEncoder" where
  "on_thread_run_loop e a =
     (if input_queue a \<noteq> None \<and> has_data (the (input_queue a))
      then (case get_next_packet a of
              (pack, a1) \<Rightarrow>
                (case encode e pack (d_ptr a1) of
                   Inl err \<Rightarrow> Inl err
                 | Inr (_, d) \<Rightarrow> on_thread_run_loop e (a1\<lparr>d_ptr := d\<rparr>)))
      else Inr a)"
  by pat_completeness auto

termination
  by (relation "measure (\<lambda>(e, a). case input_queue a of None \<Rightarrow> 0 | Some q \<Rightarrow> length q)")
     (auto simp: get_next_packet_def has_data_def split: option.splits if_splits)

definition on_thread_run :: "env \<Rightarrow> AudioEncoder \<Rightarrow> error + AudioEncoder" where
  "on_thread_run e a =
     (if input_queue a = None then Inr a else on_thread_run_loop e a)"

definition on_thread_pause :: "env \<Rightarrow> AudioEncoder \<Rightarrow> error + AudioEncoder" where
  "on_thread_pause e a =
     (case encode e None (d_ptr a) of
        Inl err \<Rightarrow> Inl err
      | Inr (_, d) \<Rightarrow> Inr (a\<lparr>d_ptr := d\<rparr>))"

subsection \<open>Reading the record of calls\<close>

fun is_resolution :: "call \<Rightarrow> bool" where
  "is_resolution (Find_encoder_by_name _ _) = True"
| "is_resolution _ = False"

fun is_activation :: "call \<Rightarrow> bool" where
  "is_activation (Open2 ret) = (0 \<le> ret)"
| "is_activation _ = False"

fun is_frame_alloc :: "call \<Rightarrow> bool" where
  "is_frame_alloc (Frame_alloc _) = True"
| "is_frame_alloc _ = False"

text \<open>
  Every failed attempt to open a session is reported by one application warning
  (\<open>Print_APP_Info\<close> at warning level).
\<close>

fun is_app_warning :: "call \<Rightarrow> bool" where
  "is_app_warning (Print_APP_Info _ _ lvl _) = (lvl = WARNING_LEVEL)"
| "is_app_warning _ = False"

definition resolutions :: "call list \<Rightarrow> nat" where
  "resolutions cs = length (filter is_resolution cs)"

definition activations :: "call list \<Rightarrow> nat" where
  "activations cs = length (filter is_activation cs)"

definition app_warnings :: "call list \<Rightarrow> nat" where
  "app_warnings cs = length (filter is_app_warning cs)"

text \<open>What the most recent codec resolution returned; \<open>None\<close> if there was none.\<close>

fun resolution_step :: "AVCodec option \<Rightarrow> call \<Rightarrow> AVCodec option" where
  "resolution_step r (Find_encoder_by_name _ found) = found"
| "resolution_step r _ = r"

definition last_resolution :: "call list \<Rightarrow> AVCodec option" where
  "last_resolution cs = foldl resolution_step None cs"

text \<open>
  The states an encoder can be in: freshly constructed, or after any number of calls of
  \<open>encode\<close>, each with a frame or with the null pointer.
\<close>

inductive reachable :: "env \<Rightarrow> Format \<Rightarrow> AudioEncoderPrivateData \<Rightarrow> bool"
  for e :: env and f0 :: Format where
  reachable_new: "reachable e f0 (new_private_data f0)"
| reachable_encode:
    "reachable e f0 s \<Longrightarrow> encode e pk s = Inr (x, s') \<Longrightarrow> reachable e f0 s'"

subsection \<open>Concrete collaborators and states\<close>

text \<open>
  A codec and library answers to run the encoder on: one world in which every library
  call succeeds, one in which the session cannot be activated, one in which the codec
  is not installed.
\<close>

definition aac :: AVCodec where
  "aac = \<lparr>codec_id = 86018, long_name = ''Fraunhofer FDK AAC'',
          supported_samplerates = Some [96000, 48000, 44100, 32000, 0]\<rparr>"

definition fresh_ctx :: AVCodecContext where
  "fresh_ctx = \<lparr>frame_size = 0, sample_fmt = - 1, bit_rate = 0, ctx_sample_rate = 0,
                channel_layout = 0, ctx_channels = 0\<rparr>"

definition fresh_frame :: AVFrame where
  "fresh_frame = \<lparr>nb_samples = 0, frame_format = - 1, frame_channel_layout = 0\<rparr>"

definition env_ok :: env where
  "env_ok = \<lparr>avcodec_find_encoder_by_name = (\<lambda>_ _. Some aac),
             avcodec_alloc_context3 = (\<lambda>_ _. Some fresh_ctx),
             avcodec_open2 = (\<lambda>_ c _. (0, c\<lparr>frame_size := 1024\<rparr>)),
             av_frame_alloc = (\<lambda>_. Some fresh_frame)\<rparr>"

definition env_open_fails :: env where
  "env_open_fails = env_ok\<lparr>avcodec_open2 := (\<lambda>_ c _. (- 22, c))\<rparr>"

definition env_no_codec :: env where
  "env_no_codec = env_ok\<lparr>avcodec_find_encoder_by_name := (\<lambda>_ _. None)\<rparr>"

definition f_default :: Format where
  "f_default = \<lparr>bits = 0, channels = 0, sample_rate = 0, layout = 0\<rparr>"

definition f_cd :: Format where
  "f_cd = \<lparr>bits = 16, channels = 2, sample_rate = 44100, layout = 3\<rparr>"

definition f_dat :: Format where
  "f_dat = \<lparr>bits = 16, channels = 2, sample_rate = 48000, layout = 3\<rparr>"

definition pkt :: "Format \<Rightarrow> FramePacket" where
  "pkt f = \<lparr>packet_format = f, payload = []\<rparr>"

definition open_ctx_value :: AVCodecContext where
  "open_ctx_value = \<lparr>frame_size = 1024, sample_fmt = 1, bit_rate = 64000,
                     ctx_sample_rate = 44100, channel_layout = 3, ctx_channels = 2\<rparr>"

definition init_success :: call where
  "init_success =
     Print_APP_Info Codec_encoder_init_success ''codec::AEPD::_init_encoder'' INFO_LEVEL
       [''Fraunhofer FDK AAC'']"

text \<open>The encoder after one frame of format \<open>f_cd\<close> in the world where all succeeds.\<close>

definition session_open_state :: AudioEncoderPrivateData where
  "session_open_state =
     \<lparr>encoder = Some aac, encoder_ctx = Some open_ctx_value, format = f_cd,
      encode_frame = Some \<lparr>nb_samples = 1024, frame_format = 1, frame_channel_layout = 3\<rparr>,
      reassignment = False,
      calls = [Find_encoder_by_name ''libfdk_aac'' (Some aac), Alloc_context3 True,
               init_success, Open2 0, Frame_alloc True]\<rparr>"

text \<open>
  The encoder after one frame of format \<open>f_cd\<close> in the world where activation fails.
\<close>

definition stale_state :: AudioEncoderPrivateData where
  "stale_state =
     \<lparr>encoder = Some aac,
      encoder_ctx = Some (open_ctx_value\<lparr>frame_size := 0\<rparr>),
      format = f_default, encode_frame = None, reassignment = False,
      calls = [Find_encoder_by_name ''libfdk_aac'' (Some aac), Alloc_context3 True,
               init_success, Open2 (- 22),
               Print_APP_Info Codec_codec_open_failed ''codec::AEPD::open_ctx'' WARNING_LEVEL [],
               Print_FFMPEG_Info (- 22) ''codec::AEPD::open_ctx'' WARNING_LEVEL]\<rparr>"

section \<open>Properties\<close>

subsection \<open>What each method does to the session\<close>

declare open_ctx.simps [simp del] close_ctx.simps [simp del]

lemma calls_record_call [simp]: "calls (record_call c s) = calls s @ [c]"
  and encoder_record_call [simp]: "encoder (record_call c s) = encoder s"
  and encoder_ctx_record_call [simp]: "encoder_ctx (record_call c s) = encoder_ctx s"
  and format_record_call [simp]: "format (record_call c s) = format s"
  and encode_frame_record_call [simp]: "encode_frame (record_call c s) = encode_frame s"
  and reassignment_record_call [simp]: "reassignment (record_call c s) = reassignment s"
  by (simp_all add: record_call_def)

lemma alloc_encode_frame_null_context:
  "alloc_encode_frame e (s\<lparr>encoder_ctx := None, encode_frame := Some f, reassignment := True\<rparr>) =
     Inl Null_dereference"
  by (simp add: alloc_encode_frame_def)

lemma alloc_encode_frame_result:
  assumes "encode_frame s = Some f" "encoder_ctx s = Some c"
  shows "alloc_encode_frame e s =
           (if reassignment s
            then Inr (True, s\<lparr>encode_frame := Some (f\<lparr>nb_samples := frame_size c,
                                                        frame_format := sample_fmt c,
                                                        frame_channel_layout := channel_layout c\<rparr>),
                              reassignment := False\<rparr>)
            else Inr (False, s))"
  using assms by (simp add: alloc_encode_frame_def)

lemma alloc_encode_frame_with_ctx:
  assumes "encoder_ctx s = Some c"
  shows "\<exists>b s' fa. alloc_encode_frame e s = Inr (b, s') \<and> encoder_ctx s' = Some c \<and>
           encoder s' = encoder s \<and> format s' = format s \<and>
           calls s' = calls s @ fa \<and> list_all is_frame_alloc fa"
  using assms
  by (auto simp: alloc_encode_frame_def Let_def split: option.splits)

lemma encode_staging_with_ctx:
  assumes "encoder_ctx s = Some c"
  shows "\<exists>x s' fa. encode_staging e s = Inr (x, s') \<and> x \<noteq> Open_failed \<and> x \<noteq> No_context \<and>
           encoder_ctx s' = Some c \<and>
           encoder s' = encoder s \<and> format s' = format s \<and>
           calls s' = calls s @ fa \<and> list_all is_frame_alloc fa"
proof -
  from alloc_encode_frame_with_ctx [OF assms, of e]
  obtain b s' fa where "alloc_encode_frame e s = Inr (b, s')" "encoder_ctx s' = Some c"
    "encoder s' = encoder s" "format s' = format s" "calls s' = calls s @ fa"
    "list_all is_frame_alloc fa" by blast
  then show ?thesis by (cases b) (auto simp: encode_staging_def)
qed

lemma close_ctx_result:
  "\<exists>s' fa. close_ctx e s = Inr s' \<and> encoder_ctx s' = None \<and> encoder s' = encoder s \<and>
      format s' = format s \<and> list_all is_frame_alloc fa \<and>
      calls s' = calls s @ (if encoder_ctx s = None then [] else fa @ [Free_context])"
proof (cases "encoder_ctx s")
  case None
  then show ?thesis by (simp add: close_ctx.simps exI [of _ "[]"])
next
  case (Some c)
  from encode_staging_with_ctx [OF Some, of e]
  obtain x s' fa where "encode_staging e s = Inr (x, s')" "encoder s' = encoder s"
    "format s' = format s" "calls s' = calls s @ fa" "list_all is_frame_alloc fa" by blast
  with Some show ?thesis
    by (auto simp: close_ctx.simps avcodec_free_context_def)
qed

lemma init_encoder_closed:
  assumes "encoder_ctx s = None" "init_encoder e name fmt s = (ok, s')"
  shows "format s' = format s \<and> reassignment s' = reassignment s \<and> encode_frame s' = encode_frame s \<and>
     (if ok
      then (\<exists>cd c. encoder s' = Some cd \<and> encoder_ctx s' = Some c \<and>
              calls s' = calls s @ [Find_encoder_by_name name (Some cd), Alloc_context3 True,
                 Print_APP_Info Codec_encoder_init_success ''codec::AEPD::_init_encoder'' INFO_LEVEL [long_name cd]])
      else encoder_ctx s' = None \<and>
           ((encoder s' = None \<and>
             calls s' = calls s @ [Find_encoder_by_name name None,
                 Print_APP_Info Codec_encoder_not_found ''codec::AEPD::_init_encoder'' WARNING_LEVEL [name]]) \<or>
            (\<exists>cd. encoder s' = Some cd \<and>
             calls s' = calls s @ [Find_encoder_by_name name (Some cd), Alloc_context3 False,
                 Print_APP_Info Codec_codec_context_alloc_failed ''codec::AEPD::_init_encoder'' WARNING_LEVEL []])))"
  using assms
  by (auto simp: init_encoder_def Let_def split: option.splits)


lemma open_ctx_noop:
  "encoder_ctx s \<noteq> None \<Longrightarrow> format s = packet_format p \<Longrightarrow> open_ctx e p s = Inr (True, s)"
  by (simp add: open_ctx.simps)

lemma open_ctx_reopen:
  assumes "\<not> (encoder_ctx s \<noteq> None \<and> format s = packet_format p)"
  shows "\<exists>ok s' fa pre. open_ctx e p s = Inr (ok, s') \<and> list_all is_frame_alloc fa \<and>
     pre = calls s @ (if encoder_ctx s = None then [] else fa @ [Free_context]) \<and>
     (if ok
      then (\<exists>cd c ret. encoder s' = Some cd \<and> encoder_ctx s' = Some c \<and>
              format s' = packet_format p \<and> reassignment s' \<and> 0 \<le> ret \<and>
              calls s' = pre @ [Find_encoder_by_name ''libfdk_aac'' (Some cd), Alloc_context3 True,
                 Print_APP_Info Codec_encoder_init_success ''codec::AEPD::_init_encoder'' INFO_LEVEL [long_name cd],
                 Open2 ret])
      else format s' = format s \<and>
           ((encoder s' = None \<and> encoder_ctx s' = None \<and>
             calls s' = pre @ [Find_encoder_by_name ''libfdk_aac'' None,
                 Print_APP_Info Codec_encoder_not_found ''codec::AEPD::_init_encoder'' WARNING_LEVEL [''libfdk_aac'']]) \<or>
            (\<exists>cd. encoder s' = Some cd \<and> encoder_ctx s' = None \<and>
             calls s' = pre @ [Find_encoder_by_name ''libfdk_aac'' (Some cd), Alloc_context3 False,
                 Print_APP_Info Codec_codec_context_alloc_failed ''codec::AEPD::_init_encoder'' WARNING_LEVEL []]) \<or>
            (\<exists>cd c ret. ret < 0 \<and> encoder s' = Some cd \<and> encoder_ctx s' = Some c \<and>
             calls s' = pre @ [Find_encoder_by_name ''libfdk_aac'' (Some cd), Alloc_context3 True,
                 Print_APP_Info Codec_encoder_init_success ''codec::AEPD::_init_encoder'' INFO_LEVEL [long_name cd],
                 Open2 ret,
                 Print_APP_Info Codec_codec_open_failed ''codec::AEPD::open_ctx'' WARNING_LEVEL [],
                 Print_FFMPEG_Info ret ''codec::AEPD::open_ctx'' WARNING_LEVEL])))"
proof -
  from close_ctx_result [of e s]
  obtain s1 fa where s1: "close_ctx e s = Inr s1" "encoder_ctx s1 = None"
    "format s1 = format s" "list_all is_frame_alloc fa"
    "calls s1 = calls s @ (if encoder_ctx s = None then [] else fa @ [Free_context])"
    by blast
  obtain ok2 s2 where s2: "init_encoder e ''libfdk_aac'' (packet_format p) s1 = (ok2, s2)"
    by (cases "init_encoder e ''libfdk_aac'' (packet_format p) s1")
  note ie = init_encoder_closed [OF s1(2) s2]
  show ?thesis
  proof (cases ok2)
    case False
    with assms s1(1) s2 have "open_ctx e p s = Inr (False, s2)"
      by (auto simp: open_ctx.simps)
    with False ie s1 show ?thesis
      by (rule_tac exI [of _ False], rule_tac exI [of _ s2], rule_tac exI [of _ fa]) simp
  next
    case True
    with ie obtain cd c where c: "encoder s2 = Some cd" "encoder_ctx s2 = Some c"
      "calls s2 = calls s1 @ [Find_encoder_by_name ''libfdk_aac'' (Some cd), Alloc_context3 True,
                 Print_APP_Info Codec_encoder_init_success ''codec::AEPD::_init_encoder'' INFO_LEVEL [long_name cd]]"
      by auto
    obtain ret c' where o: "avcodec_open2 e (calls s2) c cd = (ret, c')"
      by (cases "avcodec_open2 e (calls s2) c cd")
    show ?thesis
    proof (cases "ret < 0")
      case neg: True
      let ?s' = "record_call (Print_FFMPEG_Info ret ''codec::AEPD::open_ctx'' WARNING_LEVEL)
                   (record_call (Print_APP_Info Codec_codec_open_failed
                                   ''codec::AEPD::open_ctx'' WARNING_LEVEL [])
                      (record_call (Open2 ret) (s2\<lparr>encoder_ctx := Some c'\<rparr>)))"
      from assms s1(1) s2 True c(1,2) o neg have "open_ctx e p s = Inr (False, ?s')"
        by (auto simp: open_ctx.simps)
      with neg ie s1 c show ?thesis
        by (rule_tac exI [of _ False], rule_tac exI [of _ ?s'], rule_tac exI [of _ fa]) simp
    next
      case pos: False
      let ?s' = "(record_call (Open2 ret) (s2\<lparr>encoder_ctx := Some c'\<rparr>))
                   \<lparr>format := packet_format p, reassignment := True\<rparr>"
      from assms s1(1) s2 True c(1,2) o pos have "open_ctx e p s = Inr (True, ?s')"
        by (auto simp: open_ctx.simps)
      with pos ie s1 c show ?thesis
        by (rule_tac exI [of _ True], rule_tac exI [of _ ?s'], rule_tac exI [of _ fa]) simp
    qed
  qed
qed

lemma encode_returns: "\<exists>x s'. encode e pk s = Inr (x, s')"
proof (cases pk)
  case None
  show ?thesis
  proof (cases "encoder_ctx s")
    case no_ctx: None
    with None show ?thesis by simp
  next
    case (Some c)
    from encode_staging_with_ctx [OF Some, of e] None Some show ?thesis by auto
  qed
next
  case (Some p)
  show ?thesis
  proof (cases "encoder_ctx s \<noteq> None \<and> format s = packet_format p")
    case True
    then obtain c where c: "encoder_ctx s = Some c" by auto
    from True have "open_ctx e p s = Inr (True, s)" by (simp add: open_ctx_noop)
    with encode_staging_with_ctx [OF c, of e] Some show ?thesis by auto
  next
    case False
    from open_ctx_reopen [OF False, of e]
    obtain ok s1 where o: "open_ctx e p s = Inr (ok, s1)" "ok \<longrightarrow> encoder_ctx s1 \<noteq> None"
      by (metis option.distinct(1))
    show ?thesis
    proof (cases ok)
      case True
      with o obtain c where c: "encoder_ctx s1 = Some c" by auto
      from encode_staging_with_ctx [OF c, of e] Some o True show ?thesis by auto
    next
      case False
      with Some o show ?thesis by simp
    qed
  qed
qed

lemmas world_defs = env_ok_def env_open_fails_def env_no_codec_def aac_def fresh_ctx_def
  fresh_frame_def f_default_def f_cd_def f_dat_def pkt_def open_ctx_value_def init_success_def
  session_open_state_def stale_state_def new_private_data_def

lemmas step_defs = init_encoder_def record_call_def avcodec_free_context_def
  encode_staging_def alloc_encode_frame_def set_encoder_param_def AV_SAMPLE_FMT_S16_def
  AV_CH_LAYOUT_STEREO_def Let_def

lemma first_frame_opens:
  "encode env_ok (Some (pkt f_cd)) (new_private_data f_default) =
     Inr (Reached_encoding, session_open_state)"
  by (simp add: world_defs step_defs open_ctx.simps close_ctx.simps)

subsection \<open>Claims\<close>

text \<open>
  C5. Calling \<open>encode\<close> with the null pointer while the encoder context is null returns
  at once: the result is the early return of line 182 and the object, the record of
  outside calls included, is exactly what it was, so nothing was logged and no library
  function was called.
\<close>

theorem encode_null_without_context:
  "encoder_ctx s = None \<Longrightarrow> encode e None s = Inr (No_context, s)"
  by simp

theorem encode_null_without_context_witness:
  "encoder_ctx (new_private_data f_default) = None \<and>
   encode env_ok None (new_private_data f_default) = Inr (No_context, new_private_data f_default)"
proof -
  have h: "encoder_ctx (new_private_data f_default) = None"
    by (simp add: new_private_data_def)
  from h encode_null_without_context [OF h, of env_ok] show ?thesis by simp
qed

text \<open>
  C10. \<open>alloc_encode_frame\<close> is reached from \<open>encode\<close> only through the staging step.
  Whatever the object, the argument and the answers of the library, \<open>encode\<close> either
  returns early (the open failed, or the flush found no context) or is the staging step
  run on an object whose context is non-null, and that step returns normally. So
  \<open>encode\<close> never ends in a read through a null context, although
  \<open>alloc_encode_frame\<close> on its own can (\<open>alloc_encode_frame_null_context\<close>).
\<close>

theorem encode_never_dereferences_null:
  "((\<exists>s'. encode e pk s = Inr (Open_failed, s')) \<or>
    encode e pk s = Inr (No_context, s) \<or>
    (\<exists>s1 c x s'. encoder_ctx s1 = Some c \<and> encode e pk s = encode_staging e s1 \<and>
                  encode_staging e s1 = Inr (x, s'))) \<and>
   encode e pk s \<noteq> Inl Null_dereference"
proof (cases pk)
  case None
  show ?thesis
  proof (cases "encoder_ctx s")
    case no_ctx: None
    with None show ?thesis by simp
  next
    case (Some c)
    from encode_staging_with_ctx [OF Some, of e] obtain x s' where
      "encode_staging e s = Inr (x, s')" by blast
    with None Some show ?thesis by auto
  qed
next
  case (Some p)
  show ?thesis
  proof (cases "encoder_ctx s \<noteq> None \<and> format s = packet_format p")
    case True
    then obtain c where c: "encoder_ctx s = Some c" by auto
    from True have o: "open_ctx e p s = Inr (True, s)" by (simp add: open_ctx_noop)
    from encode_staging_with_ctx [OF c, of e] obtain x s' where
      "encode_staging e s = Inr (x, s')" by blast
    with Some o c show ?thesis by auto
  next
    case False
    from open_ctx_reopen [OF False, of e]
    obtain ok s1 where o: "open_ctx e p s = Inr (ok, s1)" "ok \<longrightarrow> encoder_ctx s1 \<noteq> None"
      by (metis option.distinct(1))
    show ?thesis
    proof (cases ok)
      case True
      with o obtain c where c: "encoder_ctx s1 = Some c" by auto
      from encode_staging_with_ctx [OF c, of e] obtain x s' where
        "encode_staging e s1 = Inr (x, s')" by blast
      with Some o True c show ?thesis by auto
    next
      case False
      with Some o show ?thesis by simp
    qed
  qed
qed

text \<open>
  C1. A failed \<open>open_ctx\<close> should leave the session closed. When resolution or context
  allocation fails it does (\<open>open_ctx_reopen\<close> above: the context is null afterwards).
  When \<open>avcodec_open2\<close> fails it does not: starting from a new encoder, a frame of
  format \<open>f_cd\<close> leaves a non-null, never activated context together with the old
  recorded format, and \<open>open_ctx\<close> for a frame of that old format then reports success
  without opening anything.
\<close>

theorem open_ctx_activation_failure_keeps_context:
  "open_ctx env_open_fails (pkt f_cd) (new_private_data f_default) = Inr (False, stale_state) \<and>
   encoder_ctx stale_state = Some (open_ctx_value\<lparr>frame_size := 0\<rparr>) \<and>
   format stale_state = f_default \<and> f_default \<noteq> f_cd \<and>
   activations (calls stale_state) = 0 \<and>
   open_ctx env_open_fails (pkt f_default) stale_state = Inr (True, stale_state)"
  by (simp add: world_defs step_defs open_ctx.simps close_ctx.simps activations_def)

text \<open>
  C3. The call should be aborted at the staging step only if the staging frame cannot be
  allocated. In the world where every library call succeeds, the first frame reaches
  the end of \<open>encode\<close>, and the second frame of the same format is aborted at the
  staging step (the return of line 186), although the staging frame exists and no
  allocation failed: \<open>alloc_encode_frame\<close> returns false whenever the flag is clear.
\<close>

theorem second_frame_aborted_at_staging:
  "encode env_ok (Some (pkt f_cd)) (new_private_data f_default) =
     Inr (Reached_encoding, session_open_state) \<and>
   encode env_ok (Some (pkt f_cd)) session_open_state =
     Inr (Staging_failed, session_open_state) \<and>
   encode_frame session_open_state \<noteq> None \<and>
   Frame_alloc False \<notin> set (calls session_open_state)"
  by (simp add: world_defs step_defs open_ctx.simps close_ctx.simps)

text \<open>
  C6, as stated, fails: \<open>open_ctx\<close> on a session that is already open for the frame's
  format returns success and leaves the flag clear.
\<close>

theorem open_ctx_noop_leaves_flag_clear:
  "open_ctx env_ok (pkt f_cd) session_open_state = Inr (True, session_open_state) \<and>
   \<not> reassignment session_open_state"
  by (simp add: world_defs open_ctx.simps)

text \<open>
  C6, amended. After every successful \<open>open_ctx\<close> the context is non-null and the
  recorded format is the frame's format; when the call opened or reopened the session
  the flag is set, and when the session was already open for that format the object is
  unchanged (so the flag is whatever it was).
\<close>

theorem open_ctx_success_postcondition:
  assumes "open_ctx e p s = Inr (True, s')"
  shows "format s' = packet_format p \<and> encoder_ctx s' \<noteq> None \<and>
         (if encoder_ctx s \<noteq> None \<and> format s = packet_format p
          then s' = s else reassignment s')"
proof (cases "encoder_ctx s \<noteq> None \<and> format s = packet_format p")
  case True
  with assms show ?thesis by (simp add: open_ctx.simps)
next
  case False
  from open_ctx_reopen [OF False, of e] assms False show ?thesis by auto
qed

theorem open_ctx_success_postcondition_witness:
  "\<not> isl (open_ctx env_ok (pkt f_dat) session_open_state) \<and>
   fst (projr (open_ctx env_ok (pkt f_dat) session_open_state)) \<and>
   format (snd (projr (open_ctx env_ok (pkt f_dat) session_open_state))) = f_dat \<and>
   reassignment (snd (projr (open_ctx env_ok (pkt f_dat) session_open_state)))"
proof -
  obtain s2 where h: "open_ctx env_ok (pkt f_dat) session_open_state = Inr (True, s2)"
    by (simp add: world_defs step_defs open_ctx.simps close_ctx.simps)
  have "format session_open_state \<noteq> packet_format (pkt f_dat)"
    by (simp add: world_defs)
  with open_ctx_success_postcondition [OF h] h show ?thesis
    by (simp add: pkt_def)
qed

text \<open>
  C4. \<open>encode\<close> on a frame whose format differs from the recorded format of an open
  session, when it gets past \<open>open_ctx\<close>, has made exactly these outside calls: possibly
  an allocation of the staging frame, the release of the old context, the resolution of
  the codec, the allocation of a new context, the success message, a successful
  \<open>avcodec_open2\<close>, and possibly a staging frame allocation. The old context is
  released without anything having been submitted to it or drained from it, and the
  session ends open for the new format.
\<close>

theorem encode_format_change_reopens:
  assumes "encoder_ctx s = Some c" and "format s \<noteq> packet_format p"
    and "encode e (Some p) s = Inr (x, s')" and "x \<noteq> Open_failed"
  shows "\<exists>fa1 fa2 cd ret c'.
           list_all is_frame_alloc fa1 \<and> list_all is_frame_alloc fa2 \<and> 0 \<le> ret \<and>
           calls s' = calls s @ fa1 @
             [Free_context, Find_encoder_by_name ''libfdk_aac'' (Some cd), Alloc_context3 True,
              Print_APP_Info Codec_encoder_init_success ''codec::AEPD::_init_encoder'' INFO_LEVEL [long_name cd],
              Open2 ret] @ fa2 \<and>
           encoder s' = Some cd \<and> encoder_ctx s' = Some c' \<and> format s' = packet_format p"
proof -
  from assms(2) have ne: "\<not> (encoder_ctx s \<noteq> None \<and> format s = packet_format p)" by simp
  from open_ctx_reopen [OF ne, of e] assms(1)
  obtain ok s1 fa1 where o: "open_ctx e p s = Inr (ok, s1)" "list_all is_frame_alloc fa1"
    and r: "ok \<Longrightarrow> \<exists>cd c1 ret. encoder s1 = Some cd \<and> encoder_ctx s1 = Some c1 \<and>
              format s1 = packet_format p \<and> 0 \<le> ret \<and>
              calls s1 = (calls s @ fa1 @ [Free_context]) @
                [Find_encoder_by_name ''libfdk_aac'' (Some cd), Alloc_context3 True,
                 Print_APP_Info Codec_encoder_init_success ''codec::AEPD::_init_encoder'' INFO_LEVEL [long_name cd],
                 Open2 ret]"
    by (auto split: if_splits)
  from o assms(3,4) have ok: ok by (cases ok) auto
  from r [OF ok] obtain cd c1 ret where s1: "encoder s1 = Some cd" "encoder_ctx s1 = Some c1"
    "format s1 = packet_format p" "0 \<le> ret"
    "calls s1 = (calls s @ fa1 @ [Free_context]) @
                [Find_encoder_by_name ''libfdk_aac'' (Some cd), Alloc_context3 True,
                 Print_APP_Info Codec_encoder_init_success ''codec::AEPD::_init_encoder'' INFO_LEVEL [long_name cd],
                 Open2 ret]" by blast
  from encode_staging_with_ctx [OF s1(2), of e]
  obtain x2 s2 fa2 where st: "encode_staging e s1 = Inr (x2, s2)" "encoder_ctx s2 = Some c1"
    "encoder s2 = encoder s1" "format s2 = format s1" "calls s2 = calls s1 @ fa2"
    "list_all is_frame_alloc fa2" by blast
  from o ok st assms(3) have "s' = s2" by simp
  with s1 st o(2) show ?thesis
    by (rule_tac exI [of _ fa1], rule_tac exI [of _ fa2], rule_tac exI [of _ cd],
        rule_tac exI [of _ ret]) simp
qed

theorem encode_format_change_reopens_witness:
  "\<not> isl (encode env_ok (Some (pkt f_dat)) session_open_state) \<and>
   fst (projr (encode env_ok (Some (pkt f_dat)) session_open_state)) = Reached_encoding \<and>
   format (snd (projr (encode env_ok (Some (pkt f_dat)) session_open_state))) = f_dat \<and>
   calls (snd (projr (encode env_ok (Some (pkt f_dat)) session_open_state))) =
     calls session_open_state @
       [Free_context, Find_encoder_by_name ''libfdk_aac'' (Some aac), Alloc_context3 True,
        init_success, Open2 0]"
proof -
  obtain s2 where h: "encode env_ok (Some (pkt f_dat)) session_open_state = Inr (Reached_encoding, s2)"
    by (simp add: world_defs step_defs open_ctx.simps close_ctx.simps)
  have a: "encoder_ctx session_open_state = Some open_ctx_value"
    and b: "format session_open_state \<noteq> packet_format (pkt f_dat)"
    by (simp_all add: world_defs)
  from encode_format_change_reopens [OF a b h]
  have "format s2 = packet_format (pkt f_dat)" by auto
  moreover have "calls s2 = calls session_open_state @
       [Free_context, Find_encoder_by_name ''libfdk_aac'' (Some aac), Alloc_context3 True,
        init_success, Open2 0]"
    using h by (auto simp: world_defs step_defs open_ctx.simps close_ctx.simps)
  ultimately show ?thesis using h by (simp add: pkt_def)
qed

subsection \<open>Runs of frames\<close>

declare on_thread_run_loop.simps [simp del]

lemma on_thread_run_loop_Nil:
  "on_thread_run_loop e \<lparr>input_queue = Some [], d_ptr = s\<rparr> =
     Inr \<lparr>input_queue = Some [], d_ptr = s\<rparr>"
  by (subst on_thread_run_loop.simps) (simp add: has_data_def)

lemma on_thread_run_loop_Cons:
  "on_thread_run_loop e \<lparr>input_queue = Some (p # ps), d_ptr = s\<rparr> =
     (case encode e (Some p) s of
        Inl err \<Rightarrow> Inl err
      | Inr (x, d) \<Rightarrow> on_thread_run_loop e \<lparr>input_queue = Some ps, d_ptr = d\<rparr>)"
  by (subst on_thread_run_loop.simps)
     (simp add: has_data_def get_next_packet_def split: sum.splits prod.splits)

lemma frame_alloc_not_counted:
  "is_frame_alloc c \<Longrightarrow> \<not> is_resolution c \<and> \<not> is_activation c \<and> \<not> is_app_warning c"
  by (cases c) simp_all

lemma filter_frame_allocs [simp]:
  assumes "list_all is_frame_alloc fa"
  shows "filter is_resolution fa = []" "filter is_activation fa = []"
    "filter is_app_warning fa = []"
  using assms by (induction fa) (auto dest: frame_alloc_not_counted)

lemma foldl_frame_allocs [simp]:
  "list_all is_frame_alloc fa \<Longrightarrow> foldl resolution_step r fa = r"
proof (induction fa arbitrary: r)
  case Nil
  then show ?case by simp
next
  case (Cons c fa)
  then show ?case by (cases c) simp_all
qed

lemmas count_defs = resolutions_def activations_def app_warnings_def

text \<open>
  One frame through \<open>encode\<close> goes one of three ways: the session is already open for
  the format, the open attempt fails, or the session is opened.
\<close>

lemma encode_frame_cases:
  obtains
    (noop) x s' where "encoder_ctx s \<noteq> None" "format s = packet_format p"
      "encode e (Some p) s = Inr (x, s')"
      "encoder_ctx s' = encoder_ctx s" "format s' = format s" "encoder s' = encoder s"
      "resolutions (calls s') = resolutions (calls s)"
      "activations (calls s') = activations (calls s)"
      "app_warnings (calls s') = app_warnings (calls s)"
      "last_resolution (calls s') = last_resolution (calls s)"
  | (failed) s' where "\<not> (encoder_ctx s \<noteq> None \<and> format s = packet_format p)"
      "open_ctx e p s = Inr (False, s')"
      "encode e (Some p) s = Inr (Open_failed, s')"
      "resolutions (calls s') = resolutions (calls s) + 1"
      "activations (calls s') = activations (calls s)"
      "app_warnings (calls s') = app_warnings (calls s) + 1"
      "last_resolution (calls s') = encoder s'"
  | (opened) x s1 s' where "\<not> (encoder_ctx s \<noteq> None \<and> format s = packet_format p)"
      "open_ctx e p s = Inr (True, s1)"
      "encode e (Some p) s = Inr (x, s')"
      "encoder_ctx s' \<noteq> None" "format s' = packet_format p"
      "resolutions (calls s') = resolutions (calls s) + 1"
      "activations (calls s') = activations (calls s) + 1"
      "app_warnings (calls s') = app_warnings (calls s)"
      "last_resolution (calls s') = encoder s'"
proof (cases "encoder_ctx s \<noteq> None \<and> format s = packet_format p")
  case True
  then obtain c where c: "encoder_ctx s = Some c" by auto
  from True have o: "open_ctx e p s = Inr (True, s)" by (simp add: open_ctx_noop)
  from encode_staging_with_ctx [OF c, of e]
  obtain x s' fa where "encode_staging e s = Inr (x, s')" "encoder_ctx s' = Some c"
    "encoder s' = encoder s" "format s' = format s" "calls s' = calls s @ fa"
    "list_all is_frame_alloc fa" by blast
  with True o c show ?thesis
    by (intro noop [of x s']) (simp_all add: count_defs last_resolution_def)
next
  case False
  from open_ctx_reopen [OF False, of e]
  obtain ok s1 fa pre where o: "open_ctx e p s = Inr (ok, s1)" "list_all is_frame_alloc fa"
    "pre = calls s @ (if encoder_ctx s = None then [] else fa @ [Free_context])"
    and r: "if ok
      then (\<exists>cd c ret. encoder s1 = Some cd \<and> encoder_ctx s1 = Some c \<and>
              format s1 = packet_format p \<and> reassignment s1 \<and> 0 \<le> ret \<and>
              calls s1 = pre @ [Find_encoder_by_name ''libfdk_aac'' (Some cd), Alloc_context3 True,
                 Print_APP_Info Codec_encoder_init_success ''codec::AEPD::_init_encoder'' INFO_LEVEL [long_name cd],
                 Open2 ret])
      else format s1 = format s \<and>
           ((encoder s1 = None \<and> encoder_ctx s1 = None \<and>
             calls s1 = pre @ [Find_encoder_by_name ''libfdk_aac'' None,
                 Print_APP_Info Codec_encoder_not_found ''codec::AEPD::_init_encoder'' WARNING_LEVEL [''libfdk_aac'']]) \<or>
            (\<exists>cd. encoder s1 = Some cd \<and> encoder_ctx s1 = None \<and>
             calls s1 = pre @ [Find_encoder_by_name ''libfdk_aac'' (Some cd), Alloc_context3 False,
                 Print_APP_Info Codec_codec_context_alloc_failed ''codec::AEPD::_init_encoder'' WARNING_LEVEL []]) \<or>
            (\<exists>cd c ret. ret < 0 \<and> encoder s1 = Some cd \<and> encoder_ctx s1 = Some c \<and>
             calls s1 = pre @ [Find_encoder_by_name ''libfdk_aac'' (Some cd), Alloc_context3 True,
                 Print_APP_Info Codec_encoder_init_success ''codec::AEPD::_init_encoder'' INFO_LEVEL [long_name cd],
                 Open2 ret,
                 Print_APP_Info Codec_codec_open_failed ''codec::AEPD::open_ctx'' WARNING_LEVEL [],
                 Print_FFMPEG_Info ret ''codec::AEPD::open_ctx'' WARNING_LEVEL]))"
    by blast
  have pre: "resolutions pre = resolutions (calls s)" "activations pre = activations (calls s)"
    "app_warnings pre = app_warnings (calls s)"
    using o(2,3) by (simp_all add: count_defs)
  show ?thesis
  proof (cases ok)
    case ok: False
    from o ok have e: "encode e (Some p) s = Inr (Open_failed, s1)" by simp
    from r ok pre have "resolutions (calls s1) = resolutions (calls s) + 1"
      "activations (calls s1) = activations (calls s)"
      "app_warnings (calls s1) = app_warnings (calls s) + 1"
      "last_resolution (calls s1) = encoder s1"
      by (auto simp: count_defs last_resolution_def)
    with False o ok e show ?thesis by (intro failed [of s1]) simp_all
  next
    case ok: True
    with r obtain cd c ret where s1: "encoder s1 = Some cd" "encoder_ctx s1 = Some c"
      "format s1 = packet_format p" "0 \<le> ret"
      "calls s1 = pre @ [Find_encoder_by_name ''libfdk_aac'' (Some cd), Alloc_context3 True,
                 Print_APP_Info Codec_encoder_init_success ''codec::AEPD::_init_encoder'' INFO_LEVEL [long_name cd],
                 Open2 ret]" by auto
    from encode_staging_with_ctx [OF s1(2), of e]
    obtain x s' fa2 where st: "encode_staging e s1 = Inr (x, s')" "encoder_ctx s' = Some c"
      "encoder s' = encoder s1" "format s' = format s1" "calls s' = calls s1 @ fa2"
      "list_all is_frame_alloc fa2" by blast
    from o ok st have e: "encode e (Some p) s = Inr (x, s')" by simp
    from s1 st pre have "resolutions (calls s') = resolutions (calls s) + 1"
      "activations (calls s') = activations (calls s) + 1"
      "app_warnings (calls s') = app_warnings (calls s)"
      "last_resolution (calls s') = encoder s'"
      by (auto simp: count_defs last_resolution_def)
    with False o ok e st s1 show ?thesis by (intro opened [of s1 x s']) simp_all
  qed
qed


lemma steady_run:
  assumes "\<forall>p\<in>set frames. packet_format p = f" "encoder_ctx s \<noteq> None" "format s = f"
  shows "\<exists>s'. on_thread_run_loop e \<lparr>input_queue = Some frames, d_ptr = s\<rparr> =
              Inr \<lparr>input_queue = Some [], d_ptr = s'\<rparr> \<and>
           resolutions (calls s') = resolutions (calls s) \<and>
           activations (calls s') = activations (calls s) \<and>
           app_warnings (calls s') = app_warnings (calls s)"
  using assms
proof (induction frames arbitrary: s)
  case Nil
  then show ?case by (simp add: on_thread_run_loop_Nil)
next
  case (Cons p ps)
  from Cons.prems have pf: "packet_format p = f" and ps: "\<forall>p\<in>set ps. packet_format p = f"
    by simp_all
  show ?case
  proof (cases rule: encode_frame_cases [of s p e])
    case (noop x s1)
    with Cons.prems have "encoder_ctx s1 \<noteq> None" "format s1 = f" by simp_all
    from Cons.IH [OF ps this] noop show ?thesis
      by (auto simp: on_thread_run_loop_Cons)
  next
    case (failed s1)
    with Cons.prems pf show ?thesis by simp
  next
    case (opened x s1 s2)
    with Cons.prems pf show ?thesis by simp
  qed
qed

lemma same_format_run:
  assumes "\<forall>p\<in>set frames. packet_format p = f"
  shows "\<exists>s'. on_thread_run_loop e \<lparr>input_queue = Some frames, d_ptr = s\<rparr> =
              Inr \<lparr>input_queue = Some [], d_ptr = s'\<rparr> \<and>
           activations (calls s') \<le> activations (calls s) + 1 \<and>
           resolutions (calls s') + app_warnings (calls s) + activations (calls s) =
             resolutions (calls s) + app_warnings (calls s') + activations (calls s')"
  using assms
proof (induction frames arbitrary: s)
  case Nil
  then show ?case by (simp add: on_thread_run_loop_Nil)
next
  case (Cons p ps)
  from Cons.prems have pf: "packet_format p = f" and ps: "\<forall>p\<in>set ps. packet_format p = f"
    by simp_all
  show ?case
  proof (cases rule: encode_frame_cases [of s p e])
    case (noop x s1)
    from Cons.IH [OF ps, of s1] noop show ?thesis
      by (auto simp: on_thread_run_loop_Cons)
  next
    case (failed s1)
    from Cons.IH [OF ps, of s1] failed show ?thesis
      by (auto simp: on_thread_run_loop_Cons)
  next
    case (opened x s1 s2)
    with pf have "encoder_ctx s2 \<noteq> None" "format s2 = f" by simp_all
    from steady_run [OF ps this, of e] opened show ?thesis
      by (auto simp: on_thread_run_loop_Cons)
  qed
qed

lemma first_open_run:
  assumes "\<forall>p\<in>set (p # ps). packet_format p = f"
    and "encoder_ctx s = None \<or> format s \<noteq> f"
    and "open_ctx e p s = Inr (True, s1)"
  shows "\<exists>s'. on_thread_run_loop e \<lparr>input_queue = Some (p # ps), d_ptr = s\<rparr> =
              Inr \<lparr>input_queue = Some [], d_ptr = s'\<rparr> \<and>
           resolutions (calls s') = resolutions (calls s) + 1 \<and>
           activations (calls s') = activations (calls s) + 1"
proof -
  from assms(1) have pf: "packet_format p = f" and ps: "\<forall>p\<in>set ps. packet_format p = f"
    by simp_all
  show ?thesis
  proof (cases rule: encode_frame_cases [of s p e])
    case (noop x s2)
    with assms(2) pf show ?thesis by auto
  next
    case (failed s2)
    with assms(3) show ?thesis by simp
  next
    case (opened x s2 s3)
    with pf have "encoder_ctx s3 \<noteq> None" "format s3 = f" by simp_all
    from steady_run [OF ps this, of e] opened show ?thesis
      by (auto simp: on_thread_run_loop_Cons)
  qed
qed

text \<open>
  C2, amended. The worker loop feeds a queue of frames of one format to \<open>encode\<close>.
  It drains the queue, and over the whole run the session is activated at most once;
  every codec resolution ends either in an application warning (a failed attempt) or in
  the activation, so the resolutions made are the failed attempts plus the activation.
  If a session is open for the format at the start, \<open>open_ctx\<close> returns success and
  changes nothing, and the run resolves and activates nothing. If no session is open
  for the format at the start and the open attempt of the first frame succeeds, the
  codec is resolved exactly once for the whole run.
\<close>

theorem same_format_opens_once:
  assumes "\<forall>p\<in>set frames. packet_format p = f"
  shows "\<exists>s'. on_thread_run e \<lparr>input_queue = Some frames, d_ptr = s\<rparr> =
              Inr \<lparr>input_queue = Some [], d_ptr = s'\<rparr> \<and>
           activations (calls s') \<le> activations (calls s) + 1 \<and>
           resolutions (calls s') + app_warnings (calls s) + activations (calls s) =
             resolutions (calls s) + app_warnings (calls s') + activations (calls s') \<and>
           (encoder_ctx s \<noteq> None \<and> format s = f \<longrightarrow>
              (\<forall>p\<in>set frames. open_ctx e p s = Inr (True, s)) \<and>
              resolutions (calls s') = resolutions (calls s) \<and>
              activations (calls s') = activations (calls s)) \<and>
           (frames \<noteq> [] \<and> (encoder_ctx s = None \<or> format s \<noteq> f) \<and>
            (\<exists>s1. open_ctx e (hd frames) s = Inr (True, s1)) \<longrightarrow>
              resolutions (calls s') = resolutions (calls s) + 1 \<and>
              activations (calls s') = activations (calls s) + 1)"
proof -
  from same_format_run [OF assms, of e s] obtain s' where
    run: "on_thread_run_loop e \<lparr>input_queue = Some frames, d_ptr = s\<rparr> =
            Inr \<lparr>input_queue = Some [], d_ptr = s'\<rparr>"
    and cnt: "activations (calls s') \<le> activations (calls s) + 1"
      "resolutions (calls s') + app_warnings (calls s) + activations (calls s) =
         resolutions (calls s) + app_warnings (calls s') + activations (calls s')"
    by blast
  have steady: "resolutions (calls s') = resolutions (calls s) \<and>
      activations (calls s') = activations (calls s)"
    if "encoder_ctx s \<noteq> None" "format s = f"
    using steady_run [OF assms that, of e] run by auto
  have noop: "\<forall>p\<in>set frames. open_ctx e p s = Inr (True, s)"
    if "encoder_ctx s \<noteq> None" "format s = f"
    using that assms by (auto simp: open_ctx_noop)
  have first: "resolutions (calls s') = resolutions (calls s) + 1 \<and>
      activations (calls s') = activations (calls s) + 1"
    if "frames \<noteq> []" "encoder_ctx s = None \<or> format s \<noteq> f"
      "open_ctx e (hd frames) s = Inr (True, s1)" for s1
  proof -
    from that(1) obtain p ps where fr: "frames = p # ps" by (cases frames) auto
    from first_open_run [OF assms [unfolded fr] that(2) that(3) [unfolded fr list.sel]] run
    show ?thesis by (auto simp: fr)
  qed
  from run cnt steady noop first show ?thesis
    by (simp add: on_thread_run_def) blast
qed


theorem same_format_opens_once_witness:
  "\<not> isl (on_thread_run env_ok
            \<lparr>input_queue = Some [pkt f_cd, pkt f_cd], d_ptr = new_private_data f_default\<rparr>) \<and>
   resolutions (calls (d_ptr (projr (on_thread_run env_ok
      \<lparr>input_queue = Some [pkt f_cd, pkt f_cd], d_ptr = new_private_data f_default\<rparr>)))) = 1 \<and>
   activations (calls (d_ptr (projr (on_thread_run env_ok
      \<lparr>input_queue = Some [pkt f_cd, pkt f_cd], d_ptr = new_private_data f_default\<rparr>)))) = 1 \<and>
   open_ctx env_ok (pkt f_cd) session_open_state = Inr (True, session_open_state) \<and>
   resolutions (calls (d_ptr (projr (on_thread_run env_ok
      \<lparr>input_queue = Some [pkt f_cd, pkt f_cd], d_ptr = session_open_state\<rparr>)))) = 1"
proof -
  let ?s = "new_private_data f_default"
  have h: "\<forall>p\<in>set [pkt f_cd, pkt f_cd]. packet_format p = f_cd"
    by (simp add: pkt_def)
  have a: "[pkt f_cd, pkt f_cd] \<noteq> []" "encoder_ctx ?s = None \<or> format ?s \<noteq> f_cd"
    by (simp_all add: new_private_data_def)
  have b: "\<exists>s1. open_ctx env_ok (hd [pkt f_cd, pkt f_cd]) ?s = Inr (True, s1)"
    by (simp add: world_defs step_defs open_ctx.simps close_ctx.simps)
  have c: "resolutions (calls ?s) = 0" "activations (calls ?s) = 0"
    by (simp_all add: new_private_data_def count_defs)
  have d: "encoder_ctx session_open_state \<noteq> None \<and> format session_open_state = f_cd"
    "resolutions (calls session_open_state) = 1"
    by (simp_all add: session_open_state_def count_defs init_success_def)
  from same_format_opens_once [OF h, of env_ok ?s] a b c
  have first: "\<not> isl (on_thread_run env_ok
            \<lparr>input_queue = Some [pkt f_cd, pkt f_cd], d_ptr = ?s\<rparr>) \<and>
   resolutions (calls (d_ptr (projr (on_thread_run env_ok
      \<lparr>input_queue = Some [pkt f_cd, pkt f_cd], d_ptr = ?s\<rparr>)))) = 1 \<and>
   activations (calls (d_ptr (projr (on_thread_run env_ok
      \<lparr>input_queue = Some [pkt f_cd, pkt f_cd], d_ptr = ?s\<rparr>)))) = 1"
    by auto
  from same_format_opens_once [OF h, of env_ok session_open_state] d
  have "open_ctx env_ok (pkt f_cd) session_open_state = Inr (True, session_open_state) \<and>
   resolutions (calls (d_ptr (projr (on_thread_run env_ok
      \<lparr>input_queue = Some [pkt f_cd, pkt f_cd], d_ptr = session_open_state\<rparr>)))) = 1"
    by auto
  with first show ?thesis by simp
qed

text \<open>
  C2, as stated, fails when the codec is not installed: two frames of the same format
  make two codec resolutions, not one.
\<close>

theorem failed_opens_resolve_again:
  "\<not> isl (on_thread_run env_no_codec
            \<lparr>input_queue = Some [pkt f_cd, pkt f_cd], d_ptr = new_private_data f_default\<rparr>) \<and>
   resolutions (calls (d_ptr (projr (on_thread_run env_no_codec
      \<lparr>input_queue = Some [pkt f_cd, pkt f_cd], d_ptr = new_private_data f_default\<rparr>)))) = 2"
  by (simp add: on_thread_run_def on_thread_run_loop_Cons on_thread_run_loop_Nil
        count_defs world_defs step_defs open_ctx.simps close_ctx.simps)

lemma no_resolution_yet: "resolutions cs = 0 \<Longrightarrow> last_resolution cs = None"
proof (induction cs rule: rev_induct)
  case Nil
  then show ?case by (simp add: last_resolution_def)
next
  case (snoc c cs)
  then show ?case by (cases c) (simp_all add: resolutions_def last_resolution_def)
qed

lemma encode_keeps_last_resolution:
  assumes "encoder s = last_resolution (calls s)" "encode e pk s = Inr (x, s')"
  shows "encoder s' = last_resolution (calls s')"
proof (cases pk)
  case None
  show ?thesis
  proof (cases "encoder_ctx s")
    case no_ctx: None
    with None assms show ?thesis by simp
  next
    case (Some c)
    from encode_staging_with_ctx [OF Some, of e] None Some assms show ?thesis
      by (auto simp: last_resolution_def)
  qed
next
  case (Some p)
  show ?thesis
  proof (cases rule: encode_frame_cases [of s p e])
    case (noop x1 s1)
    with assms Some show ?thesis by simp
  next
    case (failed s1)
    with assms Some show ?thesis by simp
  next
    case (opened x1 s1 s2)
    with assms Some show ?thesis by simp
  qed
qed

lemma reachable_last_resolution:
  "reachable e f0 s \<Longrightarrow> encoder s = last_resolution (calls s)"
proof (induction rule: reachable.induct)
  case reachable_new
  show ?case by (simp add: new_private_data_def last_resolution_def)
next
  case (reachable_encode s pk x s')
  then show ?case by (auto intro: encode_keeps_last_resolution)
qed

text \<open>
  C7, amended. On every encoder reached from construction by calls of \<open>encode\<close>,
  \<open>get_encoder_id\<close> returns the identity of the codec that the most recent codec
  resolution returned, and zero when that resolution found nothing; in particular it
  returns zero as long as no resolution was attempted.
\<close>

theorem get_encoder_id_last_resolution:
  assumes "reachable e f0 s"
  shows "get_encoder_id \<lparr>input_queue = q, d_ptr = s\<rparr> =
           (case last_resolution (calls s) of None \<Rightarrow> 0 | Some cd \<Rightarrow> codec_id cd) \<and>
         (resolutions (calls s) = 0 \<longrightarrow> get_encoder_id \<lparr>input_queue = q, d_ptr = s\<rparr> = 0)"
  using reachable_last_resolution [OF assms] no_resolution_yet [of "calls s"]
  by (auto simp: get_encoder_id_def)

theorem get_encoder_id_last_resolution_witness:
  "reachable env_open_fails f_default stale_state \<and>
   last_resolution (calls stale_state) = Some aac \<and>
   get_encoder_id \<lparr>input_queue = None, d_ptr = stale_state\<rparr> = 86018 \<and>
   reachable env_open_fails f_default (new_private_data f_default) \<and>
   resolutions (calls (new_private_data f_default)) = 0 \<and>
   get_encoder_id \<lparr>input_queue = None, d_ptr = new_private_data f_default\<rparr> = 0"
proof -
  have "encode env_open_fails (Some (pkt f_cd)) (new_private_data f_default) =
          Inr (Open_failed, stale_state)"
    by (simp add: world_defs step_defs open_ctx.simps close_ctx.simps)
  then have r: "reachable env_open_fails f_default stale_state"
    by (rule reachable_encode [OF reachable_new])
  have l: "last_resolution (calls stale_state) = Some aac"
    by (simp add: stale_state_def last_resolution_def init_success_def)
  have n: "resolutions (calls (new_private_data f_default)) = 0"
    by (simp add: new_private_data_def resolutions_def)
  from get_encoder_id_last_resolution [OF r, of None] r l
  have "reachable env_open_fails f_default stale_state \<and>
   last_resolution (calls stale_state) = Some aac \<and>
   get_encoder_id \<lparr>input_queue = None, d_ptr = stale_state\<rparr> = 86018"
    by (simp add: aac_def)
  moreover from get_encoder_id_last_resolution
      [OF reachable_new [of env_open_fails f_default], of None] n
  have "get_encoder_id \<lparr>input_queue = None, d_ptr = new_private_data f_default\<rparr> = 0"
    by simp
  ultimately show ?thesis using n reachable_new [of env_open_fails f_default] by simp
qed

text \<open>
  C7, as stated, fails: after one frame in the world where activation fails, no session
  was ever activated and \<open>get_encoder_id\<close> returns the non-zero identity of the
  resolved codec.
\<close>

theorem encoder_id_without_session:
  "encode env_open_fails (Some (pkt f_cd)) (new_private_data f_default) =
     Inr (Open_failed, stale_state) \<and>
   get_encoder_id \<lparr>input_queue = None, d_ptr = stale_state\<rparr> = 86018 \<and>
   activations (calls stale_state) = 0"
  by (simp add: world_defs step_defs open_ctx.simps close_ctx.simps get_encoder_id_def
        activations_def)

text \<open>
  C8, as stated, fails: with a non-null queue that holds no data the pause condition is
  false.
\<close>

theorem pause_condition_ignores_data:
  "\<not> get_thread_pause_condition \<lparr>input_queue = Some [], d_ptr = new_private_data f_default\<rparr> \<and>
   \<not> has_data []"
  by (simp add: get_thread_pause_condition_def has_data_def)

lemma on_thread_run_loop_drains:
  "\<exists>s'. on_thread_run_loop e \<lparr>input_queue = Some frames, d_ptr = s\<rparr> =
          Inr \<lparr>input_queue = Some [], d_ptr = s'\<rparr>"
proof (induction frames arbitrary: s)
  case Nil
  show ?case by (simp add: on_thread_run_loop_Nil)
next
  case (Cons p ps)
  from encode_returns [of e "Some p" s] obtain x s1 where
    "encode e (Some p) s = Inr (x, s1)" by blast
  with Cons [of s1] show ?case by (simp add: on_thread_run_loop_Cons)
qed

text \<open>
  C8, amended. The pause condition holds exactly when the queue reference is null.
  With a non-null queue, with or without data, it is false, and it is still false after
  \<open>on_thread_run\<close> has drained the queue.
\<close>

theorem pause_condition_iff_null_queue:
  "get_thread_pause_condition a = (input_queue a = None) \<and>
   (\<forall>frames. input_queue a = Some frames \<longrightarrow>
      \<not> get_thread_pause_condition a \<and>
      (\<exists>s'. on_thread_run e a = Inr \<lparr>input_queue = Some [], d_ptr = s'\<rparr> \<and>
            \<not> get_thread_pause_condition \<lparr>input_queue = Some [], d_ptr = s'\<rparr>))"
proof -
  have "\<exists>s'. on_thread_run e a = Inr \<lparr>input_queue = Some [], d_ptr = s'\<rparr>"
    if "input_queue a = Some frames" for frames
  proof -
    from that have a: "a = \<lparr>input_queue = Some frames, d_ptr = d_ptr a\<rparr>" by (cases a) simp
    from on_thread_run_loop_drains [of e frames "d_ptr a"] that show ?thesis
      by (subst a) (simp add: on_thread_run_def)
  qed
  then show ?thesis by (auto simp: get_thread_pause_condition_def)
qed

theorem pause_condition_iff_null_queue_witness:
  "input_queue \<lparr>input_queue = Some [pkt f_cd], d_ptr = new_private_data f_default\<rparr> =
     Some [pkt f_cd] \<and>
   \<not> get_thread_pause_condition
        \<lparr>input_queue = Some [pkt f_cd], d_ptr = new_private_data f_default\<rparr> \<and>
   on_thread_run env_ok \<lparr>input_queue = Some [pkt f_cd], d_ptr = new_private_data f_default\<rparr> =
     Inr \<lparr>input_queue = Some [], d_ptr = session_open_state\<rparr> \<and>
   \<not> get_thread_pause_condition \<lparr>input_queue = Some [], d_ptr = session_open_state\<rparr>"
proof -
  let ?a = "\<lparr>input_queue = Some [pkt f_cd], d_ptr = new_private_data f_default\<rparr>"
  have q: "input_queue ?a = Some [pkt f_cd]" by simp
  have run: "on_thread_run env_ok ?a = Inr \<lparr>input_queue = Some [], d_ptr = session_open_state\<rparr>"
    by (simp add: on_thread_run_def on_thread_run_loop_Cons on_thread_run_loop_Nil
          first_frame_opens del: encode.simps)
  from pause_condition_iff_null_queue [of ?a env_ok] q run show ?thesis
    by auto
qed

subsection \<open>Sample rate selection\<close>

lemma in_range_abs:
  assumes "- 2147439548 < p" "p < 2147483648"
  shows "c_abs (c_sub 44100 p) = \<bar>44100 - p\<bar>"
  using assms by (simp add: c_abs_def c_sub_def wrap_int32_def)

lemma select_sample_rate_loop_closest:
  assumes "\<forall>p\<in>set rs. p \<noteq> 0 \<and> - 2147439548 < p \<and> p < 2147483648"
    and "best \<noteq> 0" "- 2147439548 < best" "best < 2147483648"
  shows "\<exists>r. select_sample_rate_loop (rs @ 0 # rest) best = Inr r \<and>
           r \<in> insert best (set rs) \<and>
           (\<forall>p\<in>insert best (set rs). \<bar>44100 - r\<bar> \<le> \<bar>44100 - p\<bar>)"
  using assms
proof (induction rs arbitrary: best)
  case Nil
  then show ?case by simp
next
  case (Cons p ps)
  let ?b = "if \<bar>44100 - p\<bar> < \<bar>44100 - best\<bar> then p else best"
  from Cons.prems have step:
    "select_sample_rate_loop ((p # ps) @ 0 # rest) best = select_sample_rate_loop (ps @ 0 # rest) ?b"
    by (simp add: in_range_abs)
  from Cons.prems have b: "?b \<noteq> 0" "- 2147439548 < ?b" "?b < 2147483648" by auto
  from Cons.prems have ps: "\<forall>p\<in>set ps. p \<noteq> 0 \<and> - 2147439548 < p \<and> p < 2147483648" by simp
  from Cons.IH [OF ps b] obtain r where r:
    "select_sample_rate_loop (ps @ 0 # rest) ?b = Inr r" "r \<in> insert ?b (set ps)"
    "\<forall>q\<in>insert ?b (set ps). \<bar>44100 - r\<bar> \<le> \<bar>44100 - q\<bar>" by blast
  from r(3) have "\<bar>44100 - r\<bar> \<le> \<bar>44100 - ?b\<bar>" by blast
  then have "\<bar>44100 - r\<bar> \<le> \<bar>44100 - p\<bar>" "\<bar>44100 - r\<bar> \<le> \<bar>44100 - best\<bar>"
    by (auto split: if_splits)
  with r step show ?case by (auto split: if_splits)
qed

text \<open>
  C9, amended. For a codec whose array of supported rates holds at least one rate
  before its zero terminator, each rate a 32-bit value for which \<open>44100 - rate\<close> does
  not overflow (every positive rate is one), \<open>select_sample_rate\<close> returns a rate of
  the array such that no rate of the array is strictly closer to 44100. For an array
  that starts with the terminator it returns 0, and for a codec with no array it
  returns 44100.
\<close>

theorem select_sample_rate_closest:
  assumes "rs \<noteq> []"
    and "\<forall>p\<in>set rs. p \<noteq> 0 \<and> - 2147439548 < p \<and> p < 2147483648"
  shows "(\<exists>r. select_sample_rate (codec\<lparr>supported_samplerates := Some (rs @ 0 # rest)\<rparr>) = Inr r \<and>
            r \<in> set rs \<and> (\<forall>p\<in>set rs. \<not> \<bar>44100 - p\<bar> < \<bar>44100 - r\<bar>)) \<and>
         select_sample_rate (codec\<lparr>supported_samplerates := Some (0 # rest)\<rparr>) = Inr 0 \<and>
         select_sample_rate (codec\<lparr>supported_samplerates := None\<rparr>) = Inr 44100"
proof -
  from assms(1) obtain p ps where rs: "rs = p # ps" by (cases rs) auto
  with assms(2) have p: "p \<noteq> 0" "- 2147439548 < p" "p < 2147483648"
    and ps: "\<forall>p\<in>set ps. p \<noteq> 0 \<and> - 2147439548 < p \<and> p < 2147483648" by auto
  from select_sample_rate_loop_closest [OF ps p, of rest] obtain r where
    r: "select_sample_rate_loop (ps @ 0 # rest) p = Inr r" "r \<in> insert p (set ps)"
       "\<forall>q\<in>insert p (set ps). \<bar>44100 - r\<bar> \<le> \<bar>44100 - q\<bar>" by blast
  from p r(1) have "select_sample_rate_loop (rs @ 0 # rest) 0 = Inr r" by (simp add: rs)
  with r(2,3) show ?thesis
    by (auto simp: select_sample_rate_def rs)
qed

theorem select_sample_rate_closest_witness:
  "[96000, 48000, 44100, 32000] \<noteq> ([] :: int list) \<and>
   select_sample_rate aac = Inr 44100 \<and>
   (44100 :: int) \<in> set [96000, 48000, 44100, 32000]"
proof -
  have a: "[96000, 48000, 44100, 32000] \<noteq> ([] :: int list)" by simp
  have b: "\<forall>p\<in>set [96000, 48000, 44100, 32000 :: int].
             p \<noteq> 0 \<and> - 2147439548 < p \<and> p < 2147483648" by simp
  have c: "aac\<lparr>supported_samplerates := Some ([96000, 48000, 44100, 32000] @ 0 # [])\<rparr> = aac"
    by (simp add: aac_def)
  from select_sample_rate_closest [where codec = aac and rest = "[]", OF a b] obtain r where
    r: "select_sample_rate aac = Inr r" "r \<in> set [96000, 48000, 44100, 32000]"
       "\<forall>p\<in>set [96000, 48000, 44100, 32000]. \<not> \<bar>44100 - p\<bar> < \<bar>44100 - r\<bar>"
    unfolding c by blast
  from r(3) have "\<not> \<bar>44100 - 44100\<bar> < \<bar>44100 - r\<bar>" by simp
  then have "r = 44100" by simp
  with r show ?thesis by simp
qed

text \<open>
  C9, as stated, fails for the array that holds only the terminator: the function
  returns 0, which is not a rate of the (empty) list.
\<close>

theorem select_sample_rate_empty_list:
  "select_sample_rate (aac\<lparr>supported_samplerates := Some ([] @ [0])\<rparr>) = Inr 0 \<and>
   (0 :: int) \<notin> set []"
  by (simp add: select_sample_rate_def)

end
